theory Spec2Isabelle
  imports Complex_Main
begin

section \<open>Well production properties (WellProductionProperties.cpp)\<close>

text \<open>
  The resolver of a producing well's control state: \<open>history\<close> builds the state of a
  report step from a WCONHIST record and the previous state, \<open>prediction\<close> from a
  WCONPROD record. The \<open>double\<close> members are modelled as \<open>real\<close>: the two resolvers
  only copy them, add two of them and compare them with zero, and a NaN, which the
  comparisons of the source would not find equal to itself, is outside the model. The
  \<open>int\<close> table number is only copied and compared with zero, and is an \<open>int\<close> here.
\<close>

subsection \<open>Control modes\<close>

text \<open>
  Modelled from the spec: the enumeration \<open>WellProducer::ControlModeEnum\<close> is declared
  in ScheduleEnums.hpp, which is not among the sources. These are the eight modes of the
  spec's data model (the source names every one of them) and the cumulative-rate mode
  \<open>CRAT\<close> that the comment in \<open>effectiveHistoryProductionControl\<close> names as not
  handled.
\<close>

datatype ControlModeEnum = ORAT | WRAT | GRAT | LRAT | CRAT | RESV | BHP | THP | GRUP

text \<open>
  Modelled from the spec: \<open>WellProducer::ControlModeFromString\<close> (ScheduleEnums.cpp, not
  among the sources) resolves the trimmed text of a CMODE item to a mode. The spec's
  design notes say that the original is partial and raises on unrecognised text:
  \<open>None\<close> is that exception.
\<close>

definition ControlModeFromString :: "string \<Rightarrow> ControlModeEnum option" where
  "ControlModeFromString stringValue =
     (if stringValue = ''ORAT'' then Some ORAT
      else if stringValue = ''WRAT'' then Some WRAT
      else if stringValue = ''GRAT'' then Some GRAT
      else if stringValue = ''LRAT'' then Some LRAT
      else if stringValue = ''CRAT'' then Some CRAT
      else if stringValue = ''RESV'' then Some RESV
      else if stringValue = ''BHP'' then Some BHP
      else if stringValue = ''THP'' then Some THP
      else if stringValue = ''GRUP'' then Some GRUP
      else None)"

text \<open>\<open>WellProductionProperties::effectiveHistoryProductionControl\<close>.\<close>

definition effectiveHistoryProductionControl :: "ControlModeEnum \<Rightarrow> bool" where
  "effectiveHistoryProductionControl cmode =
     (cmode = LRAT \<or> cmode = RESV \<or> cmode = ORAT \<or>
      cmode = WRAT \<or> cmode = GRAT \<or> cmode = BHP)"

subsection \<open>The input record\<close>

text \<open>
  Modelled from the spec: \<open>DeckRecord\<close> and \<open>DeckItem\<close> (Deck/DeckRecord.hpp,
  Deck/DeckItem.hpp) are not among the sources. An item is what the resolvers read of it
  at index 0: whether it has a value, whether that value is a default, its SI value, its
  raw \<open>double\<close> and \<open>int\<close> values and its trimmed text. A record gives the item of
  a name (\<open>record.getItem(name)\<close>). The failures of the record layer itself (an item
  that the keyword does not have, a value read from an item that has none) are outside
  the model.
\<close>

record DeckItem =
  hasValue :: bool
  defaultApplied :: bool
  getSIDouble :: real
  get_double :: real
  get_int :: int
  getTrimmedString :: string

type_synonym DeckRecord = "string \<Rightarrow> DeckItem"

subsection \<open>The control state\<close>

text \<open>
  Modelled from the spec: the class declaration (Well/WellProductionProperties.hpp) is not
  among the sources. The fields are the members that the source file reads and writes,
  under their names there; \<open>m_productionControls\<close> is the spec's set of active
  controls.
\<close>

record WellProductionProperties =
  OilRate :: real
  WaterRate :: real
  GasRate :: real
  LiquidRate :: real
  ResVRate :: real
  BHPLimit :: real
  THPLimit :: real
  BHPH :: real
  THPH :: real
  VFPTableNumber :: int
  ALQValue :: real
  predictionMode :: bool
  controlMode :: ControlModeEnum
  m_productionControls :: "ControlModeEnum set"

text \<open>
  Modelled from the spec: the default member initialisers of the class declaration are not
  among the sources. A fresh object has its numeric members at zero (the "unset" value of
  the spec), no active control (the spec builds the set by additions only) and its current
  control at a default that the spec leaves open (section 4.3, step 5), which is the
  parameter \<open>dflt\<close> here and in the two resolvers.
\<close>

definition WellProductionProperties_default :: "ControlModeEnum \<Rightarrow> WellProductionProperties" where
  "WellProductionProperties_default dflt =
     \<lparr>OilRate = 0, WaterRate = 0, GasRate = 0, LiquidRate = 0, ResVRate = 0,
      BHPLimit = 0, THPLimit = 0, BHPH = 0, THPH = 0, VFPTableNumber = 0, ALQValue = 0,
      predictionMode = False, controlMode = dflt, m_productionControls = {}\<rparr>"

text \<open>The private constructor \<open>WellProductionProperties(const DeckRecord&)\<close>.\<close>

definition WellProductionProperties_record ::
  "ControlModeEnum \<Rightarrow> DeckRecord \<Rightarrow> WellProductionProperties" where
  "WellProductionProperties_record dflt record =
     (WellProductionProperties_default dflt)
       \<lparr>OilRate := getSIDouble (record ''ORAT''),
        WaterRate := getSIDouble (record ''WRAT''),
        GasRate := getSIDouble (record ''GRAT'')\<rparr>"

text \<open>
  Modelled from the spec: \<open>hasProductionControl\<close> and \<open>addProductionControl\<close> are
  defined in the class declaration, not among the sources: membership in, and addition
  to, the set of active controls.
\<close>

definition hasProductionControl :: "WellProductionProperties \<Rightarrow> ControlModeEnum \<Rightarrow> bool" where
  "hasProductionControl p controlModeArg = (controlModeArg \<in> m_productionControls p)"

definition addProductionControl ::
  "ControlModeEnum \<Rightarrow> WellProductionProperties \<Rightarrow> WellProductionProperties" where
  "addProductionControl controlModeArg p =
     (if \<not> hasProductionControl p controlModeArg
      then p\<lparr>m_productionControls := insert controlModeArg (m_productionControls p)\<rparr>
      else p)"

text \<open>
  Modelled from the spec: \<open>unit::atm\<close> (Units/Units.hpp, not among the sources), one
  standard atmosphere in pascal.
\<close>

definition unit_atm :: real where
  "unit_atm = 101325"

text \<open>\<open>resetDefaultBHPLimit\<close>, \<open>setBHPLimit\<close> and \<open>getBHPLimit\<close>.\<close>

definition resetDefaultBHPLimit :: "WellProductionProperties \<Rightarrow> WellProductionProperties" where
  "resetDefaultBHPLimit p = p\<lparr>BHPLimit := 1 * unit_atm\<rparr>"

definition setBHPLimit :: "real \<Rightarrow> WellProductionProperties \<Rightarrow> WellProductionProperties" where
  "setBHPLimit limit p = p\<lparr>BHPLimit := limit\<rparr>"

definition getBHPLimit :: "WellProductionProperties \<Rightarrow> real" where
  "getBHPLimit p = BHPLimit p"

subsection \<open>Errors\<close>

text \<open>
  Every failure of the source is a \<open>std::invalid_argument\<close>; the constructors tell the
  places that raise it apart, under the names of the spec's taxonomy:
  \<^item> \<open>MissingControlMode\<close>: "control mode can not be defaulted for keyword WCONHIST";
  \<^item> \<open>UnsupportedControlMode s\<close>: "unsupported control mode s for WCONHIST";
  \<^item> \<open>UnavailableControlSelection\<close>: "Setting CMODE to unspecified control";
  \<^item> \<open>UnknownControlModeString s\<close>: raised inside \<open>ControlModeFromString\<close>.
\<close>

datatype error =
    MissingControlMode
  | UnsupportedControlMode string
  | UnavailableControlSelection
  | UnknownControlModeString string

subsection \<open>The historical resolver\<close>

text \<open>\<open>WellProductionProperties::history\<close>.\<close>

definition history ::
  "ControlModeEnum \<Rightarrow> WellProductionProperties \<Rightarrow> DeckRecord \<Rightarrow> ControlModeEnum \<Rightarrow> bool
     \<Rightarrow> error + WellProductionProperties" where
  "history dflt prev_properties record controlModeWHISTCL switching_from_injector =
     (let p = WellProductionProperties_record dflt record;
          p = p\<lparr>predictionMode := False\<rparr>;
          p = p\<lparr>LiquidRate := WaterRate p + OilRate p\<rparr>;
          p = (if hasValue (record ''BHP'')
               then p\<lparr>BHPH := getSIDouble (record ''BHP'')\<rparr> else p);
          p = (if hasValue (record ''THP'')
               then p\<lparr>THPH := getSIDouble (record ''THP'')\<rparr> else p);
          cmodeItem = record ''CMODE''
      in
        if defaultApplied cmodeItem then Inl MissingControlMode
        else
          case ControlModeFromString (getTrimmedString cmodeItem) of
            None \<Rightarrow> Inl (UnknownControlModeString (getTrimmedString cmodeItem))
          | Some cmode_record \<Rightarrow>
              let cmode = (if effectiveHistoryProductionControl controlModeWHISTCL
                           then controlModeWHISTCL else cmode_record)
              in
                if effectiveHistoryProductionControl cmode then
                  let p = addProductionControl cmode p;
                      p = p\<lparr>controlMode := cmode\<rparr>;
                      p = (if \<not> hasProductionControl p BHP
                           then addProductionControl BHP p else p);
                      p = (if cmode = BHP then setBHPLimit (BHPH p) p
                           else if predictionMode prev_properties \<or> switching_from_injector
                                   \<or> controlMode prev_properties = BHP
                           then resetDefaultBHPLimit p
                           else setBHPLimit (getBHPLimit prev_properties) p);
                      p = p\<lparr>VFPTableNumber := get_int (record ''VFPTable'')\<rparr>;
                      p = (if VFPTableNumber p = 0
                           then p\<lparr>VFPTableNumber := VFPTableNumber prev_properties\<rparr> else p);
                      p = p\<lparr>ALQValue := get_double (record ''Lift'')\<rparr>;
                      p = (if ALQValue p = 0
                           then p\<lparr>ALQValue := ALQValue prev_properties\<rparr> else p)
                  in Inr p
                else Inl (UnsupportedControlMode (getTrimmedString cmodeItem)))"

subsection \<open>The predictive resolver\<close>

text \<open>The table \<open>modes\<close> of \<open>WellProductionProperties::prediction\<close>.\<close>

definition modes :: "(string \<times> ControlModeEnum) list" where
  "modes = [(''ORAT'', ORAT), (''WRAT'', WRAT), (''GRAT'', GRAT),
            (''LRAT'', LRAT), (''RESV'', RESV), (''THP'', THP)]"

text \<open>The loop over the table: the controls of the items that the record states.\<close>

fun add_stated_controls ::
  "DeckRecord \<Rightarrow> (string \<times> ControlModeEnum) list \<Rightarrow> WellProductionProperties
     \<Rightarrow> WellProductionProperties" where
  "add_stated_controls record [] p = p"
| "add_stated_controls record (cmode # rest) p =
     (if \<not> defaultApplied (record (fst cmode)) then
        (if fst cmode = ''THP'' \<and> THPLimit p = 0
         then add_stated_controls record rest p
         else add_stated_controls record rest (addProductionControl (snd cmode) p))
      else add_stated_controls record rest p)"

text \<open>
  \<open>WellProductionProperties::prediction\<close>, in two parts. The first part is the
  function up to the group control: the limits read from the record and the set of
  active controls.
\<close>

definition prediction_controls ::
  "ControlModeEnum \<Rightarrow> DeckRecord \<Rightarrow> bool \<Rightarrow> WellProductionProperties" where
  "prediction_controls dflt record addGroupProductionControl =
     (let p = WellProductionProperties_record dflt record;
          p = p\<lparr>predictionMode := True\<rparr>;
          p = p\<lparr>LiquidRate := getSIDouble (record ''LRAT'')\<rparr>;
          p = p\<lparr>ResVRate := getSIDouble (record ''RESV'')\<rparr>;
          p = p\<lparr>BHPLimit := getSIDouble (record ''BHP'')\<rparr>;
          p = p\<lparr>THPLimit := getSIDouble (record ''THP'')\<rparr>;
          p = p\<lparr>ALQValue := get_double (record ''ALQ'')\<rparr>;
          p = p\<lparr>VFPTableNumber := get_int (record ''VFP_TABLE'')\<rparr>;
          p = add_stated_controls record modes p;
          p = addProductionControl BHP p
      in if addGroupProductionControl then addProductionControl GRUP p else p)"

text \<open>The second part is the block that reads the CMODE item, and the return.\<close>

definition prediction ::
  "ControlModeEnum \<Rightarrow> DeckRecord \<Rightarrow> bool \<Rightarrow> error + WellProductionProperties" where
  "prediction dflt record addGroupProductionControl =
     (let p = prediction_controls dflt record addGroupProductionControl;
          cmodeItem = record ''CMODE''
      in
        if hasValue cmodeItem then
          case ControlModeFromString (getTrimmedString cmodeItem) of
            None \<Rightarrow> Inl (UnknownControlModeString (getTrimmedString cmodeItem))
          | Some cmode \<Rightarrow>
              if hasProductionControl p cmode then Inr (p\<lparr>controlMode := cmode\<rparr>)
              else Inl UnavailableControlSelection
        else Inr p)"

subsection \<open>What the equality operator compares\<close>

text \<open>\<open>WellProductionProperties::operator==\<close> and \<open>operator!=\<close>.\<close>

definition operator_eq :: "WellProductionProperties \<Rightarrow> WellProductionProperties \<Rightarrow> bool" where
  "operator_eq this other =
     (OilRate this = OilRate other
      \<and> WaterRate this = WaterRate other
      \<and> GasRate this = GasRate other
      \<and> LiquidRate this = LiquidRate other
      \<and> ResVRate this = ResVRate other
      \<and> BHPLimit this = BHPLimit other
      \<and> THPLimit this = THPLimit other
      \<and> BHPH this = BHPH other
      \<and> THPH this = THPH other
      \<and> VFPTableNumber this = VFPTableNumber other
      \<and> controlMode this = controlMode other
      \<and> m_productionControls this = m_productionControls other
      \<and> predictionMode this = predictionMode other)"

definition operator_neq :: "WellProductionProperties \<Rightarrow> WellProductionProperties \<Rightarrow> bool" where
  "operator_neq this other = (\<not> operator_eq this other)"

subsection \<open>Records for the examples\<close>

text \<open>An item that the record leaves defaulted, without a value.\<close>

definition item_defaulted :: DeckItem where
  "item_defaulted =
     \<lparr>hasValue = False, defaultApplied = True, getSIDouble = 0, get_double = 0,
      get_int = 0, getTrimmedString = ''''\<rparr>"

text \<open>An item that the record states, with a number or with a text.\<close>

definition item_number :: "real \<Rightarrow> DeckItem" where
  "item_number x =
     \<lparr>hasValue = True, defaultApplied = False, getSIDouble = x, get_double = x,
      get_int = 0, getTrimmedString = ''''\<rparr>"

definition item_text :: "string \<Rightarrow> DeckItem" where
  "item_text s =
     \<lparr>hasValue = True, defaultApplied = False, getSIDouble = 0, get_double = 0,
      get_int = 0, getTrimmedString = s\<rparr>"

definition item_int :: "int \<Rightarrow> DeckItem" where
  "item_int n =
     \<lparr>hasValue = True, defaultApplied = False, getSIDouble = 0, get_double = 0,
      get_int = n, getTrimmedString = ''''\<rparr>"

text \<open>The record with every item defaulted.\<close>

definition record_defaulted :: DeckRecord where
  "record_defaulted = (\<lambda>name. item_defaulted)"

text \<open>
  A WCONHIST record that states its control mode, a measured bottom-hole pressure and a
  lift quantity, and leaves its table number at 0; and one that states its control mode
  only.
\<close>

definition record_WCONHIST :: "string \<Rightarrow> DeckRecord" where
  "record_WCONHIST cmode =
     record_defaulted
       (''ORAT'' := item_number 0, ''WRAT'' := item_number 0, ''GRAT'' := item_number 0,
        ''CMODE'' := item_text cmode, ''BHP'' := item_number 8000000,
        ''VFPTable'' := item_int 0, ''Lift'' := item_number 2)"

definition record_WCONHIST_bare :: "string \<Rightarrow> DeckRecord" where
  "record_WCONHIST_bare cmode = record_defaulted(''CMODE'' := item_text cmode)"

text \<open>
  A WCONPROD record that states an oil rate, a tubing-head pressure and a lift quantity,
  and no control mode.
\<close>

definition record_WCONPROD :: "real \<Rightarrow> real \<Rightarrow> DeckRecord" where
  "record_WCONPROD thp alq =
     record_defaulted
       (''ORAT'' := item_number 1000, ''THP'' := item_number thp, ''ALQ'' := item_number alq)"

text \<open>A previous state from the historical resolver.\<close>

definition prev_history :: "ControlModeEnum \<Rightarrow> real \<Rightarrow> WellProductionProperties" where
  "prev_history cmode limit =
     (WellProductionProperties_default cmode)
       \<lparr>BHPLimit := limit, VFPTableNumber := 7, ALQValue := 3,
        m_productionControls := {cmode, BHP}\<rparr>"

section \<open>Symbolic execution of the historical resolver\<close>

text \<open>
  The conditional updates of the two resolvers, each as one update with a conditional
  value, so that running a resolver on a symbolic record gives one state and not a tree
  of states.
\<close>

lemmas step_defs = hasProductionControl_def addProductionControl_def resetDefaultBHPLimit_def
  setBHPLimit_def getBHPLimit_def WellProductionProperties_record_def
  WellProductionProperties_default_def

lemmas example_defs = record_defaulted_def item_defaulted_def item_number_def item_text_def
  item_int_def record_WCONHIST_def record_WCONHIST_bare_def record_WCONPROD_def
  prev_history_def ControlModeFromString_def effectiveHistoryProductionControl_def

lemma addProductionControl_insert:
  "addProductionControl m p = p\<lparr>m_productionControls := insert m (m_productionControls p)\<rparr>"
  by (simp add: addProductionControl_def hasProductionControl_def insert_absorb)

lemma if_update_BHPH:
  "(if c then p\<lparr>BHPH := x\<rparr> else p) = p\<lparr>BHPH := (if c then x else BHPH p)\<rparr>"
  by simp

lemma if_update_THPH:
  "(if c then p\<lparr>THPH := x\<rparr> else p) = p\<lparr>THPH := (if c then x else THPH p)\<rparr>"
  by simp

lemma if_update_VFPTableNumber:
  "(if c then p\<lparr>VFPTableNumber := x\<rparr> else p) =
     p\<lparr>VFPTableNumber := (if c then x else VFPTableNumber p)\<rparr>"
  by simp

lemma if_update_ALQValue:
  "(if c then p\<lparr>ALQValue := x\<rparr> else p) = p\<lparr>ALQValue := (if c then x else ALQValue p)\<rparr>"
  by simp

lemma if_update_BHPLimit:
  "(if c then p\<lparr>BHPLimit := x\<rparr> else p\<lparr>BHPLimit := y\<rparr>) =
     p\<lparr>BHPLimit := (if c then x else y)\<rparr>"
  by simp

lemma if_update_controls:
  "(if c then p\<lparr>m_productionControls := x\<rparr> else p) =
     p\<lparr>m_productionControls := (if c then x else m_productionControls p)\<rparr>"
  by simp

lemmas if_updates = if_update_BHPH if_update_THPH if_update_VFPTableNumber
  if_update_ALQValue if_update_BHPLimit if_update_controls

text \<open>The state that the historical resolver returns for the control mode \<open>cmode\<close>.\<close>

lemma history_success:
  assumes "\<not> defaultApplied (record ''CMODE'')"
    and "ControlModeFromString (getTrimmedString (record ''CMODE'')) = Some m"
    and "effectiveHistoryProductionControl (if effectiveHistoryProductionControl ov then ov else m)"
  shows "history dflt prev record ov sw = Inr
     \<lparr>OilRate = getSIDouble (record ''ORAT''),
      WaterRate = getSIDouble (record ''WRAT''),
      GasRate = getSIDouble (record ''GRAT''),
      LiquidRate = getSIDouble (record ''WRAT'') + getSIDouble (record ''ORAT''),
      ResVRate = 0,
      BHPLimit =
        (if (if effectiveHistoryProductionControl ov then ov else m) = BHP
         then (if hasValue (record ''BHP'') then getSIDouble (record ''BHP'') else 0)
         else if predictionMode prev \<or> sw \<or> controlMode prev = BHP then 1 * unit_atm
         else BHPLimit prev),
      THPLimit = 0,
      BHPH = (if hasValue (record ''BHP'') then getSIDouble (record ''BHP'') else 0),
      THPH = (if hasValue (record ''THP'') then getSIDouble (record ''THP'') else 0),
      VFPTableNumber =
        (if get_int (record ''VFPTable'') = 0 then VFPTableNumber prev
         else get_int (record ''VFPTable'')),
      ALQValue =
        (if get_double (record ''Lift'') = 0 then ALQValue prev
         else get_double (record ''Lift'')),
      predictionMode = False,
      controlMode = (if effectiveHistoryProductionControl ov then ov else m),
      m_productionControls = {(if effectiveHistoryProductionControl ov then ov else m), BHP}\<rparr>"
  using assms unfolding history_def
  apply (simp add: Let_def step_defs if_updates split del: if_split cong del: if_weak_cong)
  apply auto
  done

lemma history_missing:
  "defaultApplied (record ''CMODE'') \<Longrightarrow> history dflt prev record ov sw = Inl MissingControlMode"
  by (simp add: history_def Let_def)

lemma history_unknown:
  "\<not> defaultApplied (record ''CMODE'') \<Longrightarrow>
   ControlModeFromString (getTrimmedString (record ''CMODE'')) = None \<Longrightarrow>
   history dflt prev record ov sw =
     Inl (UnknownControlModeString (getTrimmedString (record ''CMODE'')))"
  by (simp add: history_def Let_def)

lemma history_unsupported:
  "\<not> defaultApplied (record ''CMODE'') \<Longrightarrow>
   ControlModeFromString (getTrimmedString (record ''CMODE'')) = Some m \<Longrightarrow>
   \<not> effectiveHistoryProductionControl (if effectiveHistoryProductionControl ov then ov else m) \<Longrightarrow>
   history dflt prev record ov sw =
     Inl (UnsupportedControlMode (getTrimmedString (record ''CMODE'')))"
  by (simp add: history_def Let_def)

lemma history_Inr_cases:
  assumes "history dflt prev record ov sw = Inr p"
  obtains m where
    "\<not> defaultApplied (record ''CMODE'')"
    "ControlModeFromString (getTrimmedString (record ''CMODE'')) = Some m"
    "effectiveHistoryProductionControl (if effectiveHistoryProductionControl ov then ov else m)"
proof (cases "defaultApplied (record ''CMODE'')")
  case True
  with assms show ?thesis by (simp add: history_missing)
next
  case nd: False
  show ?thesis
  proof (cases "ControlModeFromString (getTrimmedString (record ''CMODE''))")
    case None
    with assms nd show ?thesis by (simp add: history_unknown)
  next
    case (Some m)
    show ?thesis
    proof (cases "effectiveHistoryProductionControl
                    (if effectiveHistoryProductionControl ov then ov else m)")
      case True
      with nd Some that show ?thesis by blast
    next
      case False
      with assms nd Some show ?thesis by (simp add: history_unsupported)
    qed
  qed
qed

text \<open>What a successful historical resolution says of its inputs and of its result.\<close>

lemma history_Inr_state:
  assumes "history dflt prev record ov sw = Inr p"
  obtains m where
    "\<not> defaultApplied (record ''CMODE'')"
    "ControlModeFromString (getTrimmedString (record ''CMODE'')) = Some m"
    "effectiveHistoryProductionControl (controlMode p)"
    "controlMode p = (if effectiveHistoryProductionControl ov then ov else m)"
    "m_productionControls p = {controlMode p, BHP}"
    "BHPH p = (if hasValue (record ''BHP'') then getSIDouble (record ''BHP'') else 0)"
    "BHPLimit p =
       (if controlMode p = BHP then BHPH p
        else if predictionMode prev \<or> sw \<or> controlMode prev = BHP then 1 * unit_atm
        else BHPLimit prev)"
    "VFPTableNumber p =
       (if get_int (record ''VFPTable'') = 0 then VFPTableNumber prev
        else get_int (record ''VFPTable''))"
    "ALQValue p =
       (if get_double (record ''Lift'') = 0 then ALQValue prev
        else get_double (record ''Lift''))"
proof -
  from assms obtain m where m:
    "\<not> defaultApplied (record ''CMODE'')"
    "ControlModeFromString (getTrimmedString (record ''CMODE'')) = Some m"
    "effectiveHistoryProductionControl (if effectiveHistoryProductionControl ov then ov else m)"
    by (rule history_Inr_cases)
  note p = assms [unfolded history_success [of "record" m ov dflt prev sw, OF m], THEN Inr_inject, symmetric]
  have 1: "controlMode p = (if effectiveHistoryProductionControl ov then ov else m)"
    by (subst p) simp
  have 2: "m_productionControls p = {controlMode p, BHP}"
    unfolding 1 by (subst p) simp
  have 3: "BHPH p = (if hasValue (record ''BHP'') then getSIDouble (record ''BHP'') else 0)"
    by (subst p) simp
  have 4: "BHPLimit p =
       (if controlMode p = BHP then BHPH p
        else if predictionMode prev \<or> sw \<or> controlMode prev = BHP then 1 * unit_atm
        else BHPLimit prev)"
    unfolding 1 3 by (subst p) simp
  have 5: "VFPTableNumber p =
       (if get_int (record ''VFPTable'') = 0 then VFPTableNumber prev
        else get_int (record ''VFPTable''))"
    by (subst p) simp
  have 6: "ALQValue p =
       (if get_double (record ''Lift'') = 0 then ALQValue prev
        else get_double (record ''Lift''))"
    by (subst p) simp
  from m(3) have 7: "effectiveHistoryProductionControl (controlMode p)"
    unfolding 1 .
  from m(1,2) 7 1 2 3 4 5 6 show ?thesis by (rule that)
qed

section \<open>Symbolic execution of the predictive resolver\<close>

lemma add_stated_controls_eq:
  "add_stated_controls record ms p =
     p\<lparr>m_productionControls :=
         m_productionControls p \<union>
         set (map snd (filter (\<lambda>c. \<not> defaultApplied (record (fst c))
                                    \<and> \<not> (fst c = ''THP'' \<and> THPLimit p = 0)) ms))\<rparr>"
proof (induction ms arbitrary: p)
  case Nil
  show ?case by simp
next
  case (Cons cmode rest)
  have thp: "THPLimit (addProductionControl (snd cmode) p) = THPLimit p"
    by (simp add: addProductionControl_insert)
  have ctl: "m_productionControls (addProductionControl (snd cmode) p) =
      insert (snd cmode) (m_productionControls p)"
    by (simp add: addProductionControl_insert)
  show ?case
  proof (cases "\<not> defaultApplied (record (fst cmode)) \<and> \<not> (fst cmode = ''THP'' \<and> THPLimit p = 0)")
    case True
    then have "add_stated_controls record (cmode # rest) p =
        add_stated_controls record rest (addProductionControl (snd cmode) p)"
      by (simp only: add_stated_controls.simps if_True if_False simp_thms)
    also have "\<dots> = (addProductionControl (snd cmode) p)\<lparr>m_productionControls :=
         insert (snd cmode) (m_productionControls p) \<union>
         set (map snd (filter (\<lambda>c. \<not> defaultApplied (record (fst c))
                                    \<and> \<not> (fst c = ''THP'' \<and> THPLimit p = 0)) rest))\<rparr>"
      unfolding Cons.IH thp ctl ..
    also have "\<dots> = p\<lparr>m_productionControls :=
         m_productionControls p \<union>
         set (map snd (filter (\<lambda>c. \<not> defaultApplied (record (fst c))
                                    \<and> \<not> (fst c = ''THP'' \<and> THPLimit p = 0)) (cmode # rest)))\<rparr>"
      using True by (simp add: addProductionControl_insert)
    finally show ?thesis .
  next
    case False
    then have "add_stated_controls record (cmode # rest) p = add_stated_controls record rest p"
      by (cases "defaultApplied (record (fst cmode))") simp_all
    also have "\<dots> = p\<lparr>m_productionControls :=
         m_productionControls p \<union>
         set (map snd (filter (\<lambda>c. \<not> defaultApplied (record (fst c))
                                    \<and> \<not> (fst c = ''THP'' \<and> THPLimit p = 0)) (cmode # rest)))\<rparr>"
      unfolding Cons.IH using False by (cases "defaultApplied (record (fst cmode))") simp_all
    finally show ?thesis .
  qed
qed

lemma stated_modes_iff:
  "m \<in> set (map snd (filter P modes)) \<longleftrightarrow>
     (m = ORAT \<and> P (''ORAT'', ORAT)) \<or> (m = WRAT \<and> P (''WRAT'', WRAT))
     \<or> (m = GRAT \<and> P (''GRAT'', GRAT)) \<or> (m = LRAT \<and> P (''LRAT'', LRAT))
     \<or> (m = RESV \<and> P (''RESV'', RESV)) \<or> (m = THP \<and> P (''THP'', THP))"
proof -
  have "m \<in> set (map snd (filter P modes)) \<longleftrightarrow> (\<exists>c\<in>set modes. P c \<and> snd c = m)"
    by auto
  also have "\<dots> \<longleftrightarrow> (m = ORAT \<and> P (''ORAT'', ORAT)) \<or> (m = WRAT \<and> P (''WRAT'', WRAT))
     \<or> (m = GRAT \<and> P (''GRAT'', GRAT)) \<or> (m = LRAT \<and> P (''LRAT'', LRAT))
     \<or> (m = RESV \<and> P (''RESV'', RESV)) \<or> (m = THP \<and> P (''THP'', THP))"
    unfolding modes_def by (simp only: list.set bex_simps snd_conv) blast
  finally show ?thesis .
qed

lemma prediction_controls_eq:
  "prediction_controls dflt record grp =
     \<lparr>OilRate = getSIDouble (record ''ORAT''),
      WaterRate = getSIDouble (record ''WRAT''),
      GasRate = getSIDouble (record ''GRAT''),
      LiquidRate = getSIDouble (record ''LRAT''),
      ResVRate = getSIDouble (record ''RESV''),
      BHPLimit = getSIDouble (record ''BHP''),
      THPLimit = getSIDouble (record ''THP''),
      BHPH = 0,
      THPH = 0,
      VFPTableNumber = get_int (record ''VFP_TABLE''),
      ALQValue = get_double (record ''ALQ''),
      predictionMode = True,
      controlMode = dflt,
      m_productionControls =
        (if grp then {GRUP} else {}) \<union>
        ({BHP} \<union>
         set (map snd (filter (\<lambda>c. \<not> defaultApplied (record (fst c))
                \<and> \<not> (fst c = ''THP'' \<and> getSIDouble (record ''THP'') = 0)) modes)))\<rparr>"
  by (simp add: prediction_controls_def Let_def add_stated_controls_eq
      addProductionControl_insert WellProductionProperties_record_def
      WellProductionProperties_default_def insert_commute)

lemma prediction_controls_iff:
  "m \<in> m_productionControls (prediction_controls dflt record grp) \<longleftrightarrow>
     (m = ORAT \<and> \<not> defaultApplied (record ''ORAT''))
     \<or> (m = WRAT \<and> \<not> defaultApplied (record ''WRAT''))
     \<or> (m = GRAT \<and> \<not> defaultApplied (record ''GRAT''))
     \<or> (m = LRAT \<and> \<not> defaultApplied (record ''LRAT''))
     \<or> (m = RESV \<and> \<not> defaultApplied (record ''RESV''))
     \<or> (m = THP \<and> \<not> defaultApplied (record ''THP'') \<and> getSIDouble (record ''THP'') \<noteq> 0)
     \<or> m = BHP
     \<or> (m = GRUP \<and> grp)"
  unfolding prediction_controls_eq
  apply (simp add: stated_modes_iff del: set_map set_filter)
  apply blast
  done

lemma prediction_controls_controlMode:
  "controlMode (prediction_controls dflt record grp) = dflt"
  by (simp add: prediction_controls_eq)

lemma prediction_absent:
  "\<not> hasValue (record ''CMODE'') \<Longrightarrow>
   prediction dflt record grp = Inr (prediction_controls dflt record grp)"
  by (simp add: prediction_def Let_def)

lemma prediction_unknown:
  "hasValue (record ''CMODE'') \<Longrightarrow>
   ControlModeFromString (getTrimmedString (record ''CMODE'')) = None \<Longrightarrow>
   prediction dflt record grp =
     Inl (UnknownControlModeString (getTrimmedString (record ''CMODE'')))"
  by (simp add: prediction_def Let_def)

lemma prediction_stated:
  "hasValue (record ''CMODE'') \<Longrightarrow>
   ControlModeFromString (getTrimmedString (record ''CMODE'')) = Some m \<Longrightarrow>
   prediction dflt record grp =
     (if m \<in> m_productionControls (prediction_controls dflt record grp)
      then Inr ((prediction_controls dflt record grp)\<lparr>controlMode := m\<rparr>)
      else Inl UnavailableControlSelection)"
  by (simp add: prediction_def Let_def hasProductionControl_def)

lemma prediction_Inr_cases:
  assumes "prediction dflt record grp = Inr p"
  obtains (absent) "\<not> hasValue (record ''CMODE'')" "p = prediction_controls dflt record grp"
  | (stated) m where "hasValue (record ''CMODE'')"
      "ControlModeFromString (getTrimmedString (record ''CMODE'')) = Some m"
      "m \<in> m_productionControls (prediction_controls dflt record grp)"
      "p = (prediction_controls dflt record grp)\<lparr>controlMode := m\<rparr>"
proof (cases "hasValue (record ''CMODE'')")
  case False
  with assms absent show ?thesis by (simp add: prediction_absent)
next
  case hv: True
  show ?thesis
  proof (cases "ControlModeFromString (getTrimmedString (record ''CMODE''))")
    case None
    with assms hv show ?thesis by (simp add: prediction_unknown)
  next
    case (Some m)
    with assms hv stated [of m] show ?thesis
      by (simp add: prediction_stated split: if_splits)
  qed
qed

lemma prediction_Inr_controls:
  assumes "prediction dflt record grp = Inr p"
  shows "m_productionControls p = m_productionControls (prediction_controls dflt record grp)"
  using assms by (rule prediction_Inr_cases) simp_all

section \<open>Equality\<close>

text \<open>
  \<open>operator==\<close> compares every member but \<open>ALQValue\<close>: two states compare equal
  exactly when they agree on every other member.
\<close>

lemma operator_eq_iff:
  "operator_eq a b \<longleftrightarrow> a\<lparr>ALQValue := ALQValue b\<rparr> = b"
  by (cases a; cases b) (auto simp: operator_eq_def)

lemma operator_eq_same: "operator_eq a a"
  by (simp add: operator_eq_def)

section \<open>The claims\<close>

text \<open>
  C1. In every successful historical resolution the bottom-hole pressure limit is the
  measured bottom-hole pressure of the history member (the record's value, when the record
  states one) if the resulting current control is BHP; otherwise it is reset to one
  standard atmosphere when the previous state was predictive, or the well switches from
  injector to producer, or the previous current control was BHP, and in every remaining
  case it is the previous state's limit.
\<close>

theorem history_BHPLimit:
  assumes "history dflt prev record ov sw = Inr p"
  shows "BHPLimit p =
           (if controlMode p = BHP then BHPH p
            else if predictionMode prev \<or> sw \<or> controlMode prev = BHP then 1 * unit_atm
            else BHPLimit prev)
         \<and> (hasValue (record ''BHP'') \<longrightarrow> BHPH p = getSIDouble (record ''BHP''))
         \<and> 1 * unit_atm = 101325"
  using assms by (rule history_Inr_state) (simp add: unit_atm_def)

theorem history_BHPLimit_witness:
  "let r = history ORAT (prev_history RESV 6500000) (record_WCONHIST ''ORAT'') THP False;
       p = projr r
   in r = Inr p
      \<and> hasValue (record_WCONHIST ''ORAT'' ''BHP'')
      \<and> controlMode p = ORAT \<and> BHPLimit p = 6500000 \<and> BHPH p = 8000000"
proof -
  let ?r = "history ORAT (prev_history RESV 6500000) (record_WCONHIST ''ORAT'') THP False"
  have ok: "?r = Inr (projr ?r)"
    by (subst (1 2) history_success [where m = ORAT]) (simp_all add: example_defs)
  have hv: "hasValue (record_WCONHIST ''ORAT'' ''BHP'')"
    and v: "getSIDouble (record_WCONHIST ''ORAT'' ''BHP'') = 8000000"
    by (simp_all add: example_defs)
  have cm: "controlMode (projr ?r) = ORAT"
    by (subst history_success [where m = ORAT]) (simp_all add: example_defs)
  have prev: "\<not> predictionMode (prev_history RESV 6500000)"
    "controlMode (prev_history RESV 6500000) = RESV"
    "BHPLimit (prev_history RESV 6500000) = 6500000"
    by (simp_all add: prev_history_def WellProductionProperties_default_def)
  from history_BHPLimit [OF ok] hv v cm prev
  have "BHPLimit (projr ?r) = 6500000" "BHPH (projr ?r) = 8000000"
    by simp_all
  with ok hv cm show ?thesis
    unfolding Let_def by blast
qed

text \<open>
  C2. Two control states that differ in the lift quantity \<open>ALQValue\<close> alone should
  compare unequal. \<open>operator==\<close> leaves that member out: the states that the predictive
  resolver returns for two records that differ in the ALQ item alone (1 and 2) compare
  equal.
\<close>

theorem operator_eq_ignores_ALQValue:
  "prediction ORAT (record_WCONPROD 0 1) False =
     Inr (projr (prediction ORAT (record_WCONPROD 0 1) False))
   \<and> prediction ORAT (record_WCONPROD 0 2) False =
     Inr (projr (prediction ORAT (record_WCONPROD 0 2) False))
   \<and> ALQValue (projr (prediction ORAT (record_WCONPROD 0 1) False)) = 1
   \<and> ALQValue (projr (prediction ORAT (record_WCONPROD 0 2) False)) = 2
   \<and> operator_eq (projr (prediction ORAT (record_WCONPROD 0 1) False))
        (projr (prediction ORAT (record_WCONPROD 0 2) False))
   \<and> \<not> operator_neq (projr (prediction ORAT (record_WCONPROD 0 1) False))
        (projr (prediction ORAT (record_WCONPROD 0 2) False))"
proof -
  have absent: "\<not> hasValue (record_WCONPROD 0 alq ''CMODE'')" for alq
    by (simp add: example_defs)
  have r: "prediction ORAT (record_WCONPROD 0 alq) False =
      Inr (prediction_controls ORAT (record_WCONPROD 0 alq) False)" for alq
    by (simp add: prediction_absent absent)
  have alq: "ALQValue (prediction_controls ORAT (record_WCONPROD 0 alq) False) = alq" for alq
    by (simp add: prediction_controls_eq example_defs)
  have "(prediction_controls ORAT (record_WCONPROD 0 1) False)
          \<lparr>ALQValue := ALQValue (prediction_controls ORAT (record_WCONPROD 0 2) False)\<rparr> =
        prediction_controls ORAT (record_WCONPROD 0 2) False"
    by (simp add: prediction_controls_eq example_defs)
  then have "operator_eq (prediction_controls ORAT (record_WCONPROD 0 1) False)
      (prediction_controls ORAT (record_WCONPROD 0 2) False)"
    by (simp only: operator_eq_iff)
  then show ?thesis
    by (simp add: r alq operator_neq_def)
qed

text \<open>
  C3, as amended. The current control is an active control in every state that the
  historical resolver returns, and in every state that the predictive resolver returns
  for a record with a CMODE item. For a record without one the predictive resolver leaves
  the current control at its default, which is an active control only when the record and
  the group flag activate that very mode.
\<close>

theorem currentControl_active:
  "(history dflt prev record ov sw = Inr p \<longrightarrow> controlMode p \<in> m_productionControls p)
   \<and> (prediction dflt' record' grp = Inr q \<and> hasValue (record' ''CMODE'') \<longrightarrow>
        controlMode q \<in> m_productionControls q)
   \<and> (prediction dflt'' record'' grp' = Inr q' \<and> \<not> hasValue (record'' ''CMODE'') \<longrightarrow>
        controlMode q' = dflt'' \<and>
        (controlMode q' \<in> m_productionControls q' \<longleftrightarrow>
           dflt'' \<in> m_productionControls (prediction_controls dflt'' record'' grp')))"
proof (intro conjI impI)
  assume "history dflt prev record ov sw = Inr p"
  then show "controlMode p \<in> m_productionControls p"
    by (rule history_Inr_state) simp
next
  assume "prediction dflt' record' grp = Inr q \<and> hasValue (record' ''CMODE'')"
  then have q: "prediction dflt' record' grp = Inr q" and hv: "hasValue (record' ''CMODE'')"
    by simp_all
  from q show "controlMode q \<in> m_productionControls q"
    by (rule prediction_Inr_cases) (simp_all add: hv)
next
  assume a: "prediction dflt'' record'' grp' = Inr q' \<and> \<not> hasValue (record'' ''CMODE'')"
  then have "\<not> hasValue (record'' ''CMODE'')"
    and "prediction dflt'' record'' grp' = Inr q'"
    by simp_all
  then have q': "q' = prediction_controls dflt'' record'' grp'"
    by (simp add: prediction_absent)
  show "controlMode q' = dflt''"
    by (simp add: q' prediction_controls_controlMode)
  show "controlMode q' \<in> m_productionControls q' \<longleftrightarrow>
           dflt'' \<in> m_productionControls (prediction_controls dflt'' record'' grp')"
    by (simp add: q' prediction_controls_controlMode)
qed

theorem currentControl_active_witness:
  "let h = history ORAT (prev_history RESV 6500000) (record_WCONHIST ''ORAT'') THP False;
       r = prediction GRUP ((record_WCONPROD 0 1)(''CMODE'' := item_text ''ORAT'')) False;
       r' = prediction BHP (record_WCONPROD 0 1) False
   in h = Inr (projr h) \<and> controlMode (projr h) \<in> m_productionControls (projr h)
      \<and> r = Inr (projr r) \<and> hasValue (((record_WCONPROD 0 1)(''CMODE'' := item_text ''ORAT'')) ''CMODE'')
      \<and> controlMode (projr r) \<in> m_productionControls (projr r)
      \<and> r' = Inr (projr r') \<and> \<not> hasValue (record_WCONPROD 0 1 ''CMODE'')
      \<and> controlMode (projr r') = BHP"
proof -
  let ?h = "history ORAT (prev_history RESV 6500000) (record_WCONHIST ''ORAT'') THP False"
  let ?rc = "(record_WCONPROD 0 1)(''CMODE'' := item_text ''ORAT'')"
  let ?r = "prediction GRUP ?rc False"
  let ?r' = "prediction BHP (record_WCONPROD 0 1) False"
  have h: "?h = Inr (projr ?h)"
    by (subst (1 2) history_success [where m = ORAT]) (simp_all add: example_defs)
  have hv: "hasValue (?rc ''CMODE'')" and nhv: "\<not> hasValue (record_WCONPROD 0 1 ''CMODE'')"
    by (simp_all add: example_defs)
  have r: "?r = Inr (projr ?r)"
    by (subst (1 2) prediction_stated [where m = ORAT])
      (simp_all add: prediction_controls_iff example_defs)
  have r': "?r' = Inr (projr ?r')"
    by (simp add: prediction_absent nhv)
  note t = currentControl_active [of ORAT "prev_history RESV 6500000" "record_WCONHIST ''ORAT''"
      THP False "projr ?h" GRUP ?rc False "projr ?r" BHP "record_WCONPROD 0 1" False "projr ?r'"]
  from t h have 1: "controlMode (projr ?h) \<in> m_productionControls (projr ?h)" by blast
  from t r hv have 2: "controlMode (projr ?r) \<in> m_productionControls (projr ?r)" by blast
  from t r' nhv have 3: "controlMode (projr ?r') = BHP" by blast
  from h r r' hv nhv 1 2 3 show ?thesis
    unfolding Let_def by blast
qed

text \<open>
  C3, as stated, fails: with ORAT as the default control and a record that states nothing,
  the predictive resolver returns a state whose active controls are BHP alone and whose
  current control is still ORAT.
\<close>

theorem currentControl_active_counterexample:
  "prediction ORAT record_defaulted False =
     Inr (projr (prediction ORAT record_defaulted False))
   \<and> controlMode (projr (prediction ORAT record_defaulted False))
       \<notin> m_productionControls (projr (prediction ORAT record_defaulted False))"
proof -
  have "\<not> hasValue (record_defaulted ''CMODE'')"
    by (simp add: example_defs)
  then have r: "prediction ORAT record_defaulted False =
      Inr (prediction_controls ORAT record_defaulted False)"
    by (rule prediction_absent)
  have "ORAT \<notin> m_productionControls (prediction_controls ORAT record_defaulted False)"
    by (simp add: prediction_controls_iff example_defs)
  then show ?thesis
    by (simp add: r prediction_controls_controlMode)
qed

text \<open>
  The same holds of every default other than BHP: a record that states nothing, without
  the group flag, activates BHP alone.
\<close>

lemma prediction_default_not_active:
  assumes "dflt \<noteq> BHP" and "prediction dflt record_defaulted False = Inr p"
  shows "controlMode p = dflt" and "m_productionControls p = {BHP}"
    and "controlMode p \<notin> m_productionControls p"
proof -
  have "\<not> hasValue (record_defaulted ''CMODE'')"
    by (simp add: example_defs)
  with assms(2) have p: "p = prediction_controls dflt record_defaulted False"
    by (simp add: prediction_absent)
  show "controlMode p = dflt"
    by (simp add: p prediction_controls_controlMode)
  show "m_productionControls p = {BHP}"
    unfolding p by (rule set_eqI) (simp add: prediction_controls_iff example_defs)
  with assms(1) \<open>controlMode p = dflt\<close> show "controlMode p \<notin> m_productionControls p"
    by simp
qed

text \<open>
  C4. BHP is an active control in every state that the historical resolver or the
  predictive resolver returns, whether or not the record states a bottom-hole pressure.
\<close>

theorem BHP_always_active:
  "(history dflt prev record ov sw = Inr p \<longrightarrow> BHP \<in> m_productionControls p)
   \<and> (prediction dflt' record' grp = Inr q \<longrightarrow> BHP \<in> m_productionControls q)"
proof (intro conjI impI)
  assume "history dflt prev record ov sw = Inr p"
  then show "BHP \<in> m_productionControls p"
    by (rule history_Inr_state) simp
next
  assume "prediction dflt' record' grp = Inr q"
  then have "m_productionControls q = m_productionControls (prediction_controls dflt' record' grp)"
    by (rule prediction_Inr_controls)
  then show "BHP \<in> m_productionControls q"
    by (simp add: prediction_controls_iff)
qed

theorem BHP_always_active_witness:
  "let h = history ORAT (prev_history RESV 6500000) (record_WCONHIST_bare ''ORAT'') THP False;
       r = prediction ORAT record_defaulted False
   in h = Inr (projr h) \<and> \<not> hasValue (record_WCONHIST_bare ''ORAT'' ''BHP'')
      \<and> BHP \<in> m_productionControls (projr h)
      \<and> r = Inr (projr r) \<and> defaultApplied (record_defaulted ''BHP'')
      \<and> BHP \<in> m_productionControls (projr r)"
proof -
  let ?h = "history ORAT (prev_history RESV 6500000) (record_WCONHIST_bare ''ORAT'') THP False"
  let ?r = "prediction ORAT record_defaulted False"
  have h: "?h = Inr (projr ?h)"
    by (subst (1 2) history_success [where m = ORAT]) (simp_all add: example_defs)
  have "\<not> hasValue (record_defaulted ''CMODE'')"
    by (simp add: example_defs)
  then have r: "?r = Inr (projr ?r)"
    by (simp add: prediction_absent)
  have st: "\<not> hasValue (record_WCONHIST_bare ''ORAT'' ''BHP'')"
    "defaultApplied (record_defaulted ''BHP'')"
    by (simp_all add: example_defs)
  note t = BHP_always_active [of ORAT "prev_history RESV 6500000" "record_WCONHIST_bare ''ORAT''"
      THP False "projr ?h" ORAT record_defaulted False "projr ?r"]
  from t h have 1: "BHP \<in> m_productionControls (projr ?h)" by blast
  from t r have 2: "BHP \<in> m_productionControls (projr ?r)" by blast
  from h r st 1 2 show ?thesis
    unfolding Let_def by blast
qed

text \<open>
  C5. The historical resolver fails with \<open>MissingControlMode\<close> exactly when the CMODE
  item of the record is defaulted. Otherwise, for a CMODE text that names a mode, an
  override that is an effective historical production control replaces that mode and
  becomes the current control; and the resolver fails with \<open>UnsupportedControlMode\<close>,
  which carries the CMODE text of the record, exactly when the mode after the replacement
  is not an effective historical production control.
\<close>

theorem history_control_mode_errors:
  "(history dflt prev record ov sw = Inl MissingControlMode \<longleftrightarrow>
      defaultApplied (record ''CMODE''))
   \<and> (\<not> defaultApplied (record ''CMODE'')
        \<and> ControlModeFromString (getTrimmedString (record ''CMODE'')) = Some m
        \<and> effectiveHistoryProductionControl ov \<longrightarrow>
        (\<exists>p. history dflt prev record ov sw = Inr p \<and> controlMode p = ov))
   \<and> (history dflt prev record ov sw = Inl (UnsupportedControlMode s) \<longleftrightarrow>
        \<not> defaultApplied (record ''CMODE'')
        \<and> s = getTrimmedString (record ''CMODE'')
        \<and> (\<exists>m. ControlModeFromString (getTrimmedString (record ''CMODE'')) = Some m
              \<and> \<not> effectiveHistoryProductionControl
                    (if effectiveHistoryProductionControl ov then ov else m)))"
proof -
  let ?h = "history dflt prev record ov sw"
  let ?text = "getTrimmedString (record ''CMODE'')"
  let ?cmode = "\<lambda>m. if effectiveHistoryProductionControl ov then ov else m"
  consider (missing) "defaultApplied (record ''CMODE'')"
    | (unknown) "\<not> defaultApplied (record ''CMODE'')" "ControlModeFromString ?text = None"
    | (unsupported) m' where "\<not> defaultApplied (record ''CMODE'')"
        "ControlModeFromString ?text = Some m'"
        "\<not> effectiveHistoryProductionControl (?cmode m')"
    | (ok) m' where "\<not> defaultApplied (record ''CMODE'')"
        "ControlModeFromString ?text = Some m'"
        "effectiveHistoryProductionControl (?cmode m')"
    by (cases "ControlModeFromString ?text") blast+
  then show ?thesis
  proof cases
    case missing
    then show ?thesis by (simp add: history_missing)
  next
    case unknown
    then show ?thesis by (simp add: history_unknown)
  next
    case unsupported
    then have "?h = Inl (UnsupportedControlMode ?text)"
      by (rule history_unsupported)
    with unsupported show ?thesis by auto
  next
    case ok
    from history_success [of "record" m' ov dflt prev sw, OF ok]
    obtain p where p: "?h = Inr p"
      and cm: "controlMode p = ?cmode m'"
      by simp
    from ok p cm show ?thesis by auto
  qed
qed

theorem history_control_mode_errors_witness:
  "\<not> defaultApplied (record_WCONHIST ''THP'' ''CMODE'')
   \<and> ControlModeFromString (getTrimmedString (record_WCONHIST ''THP'' ''CMODE'')) = Some THP
   \<and> effectiveHistoryProductionControl LRAT
   \<and> (\<exists>p. history ORAT (prev_history RESV 6500000) (record_WCONHIST ''THP'') LRAT False = Inr p
          \<and> controlMode p = LRAT)
   \<and> history ORAT (prev_history RESV 6500000) (record_WCONHIST ''THP'') GRUP False
        = Inl (UnsupportedControlMode ''THP'')
   \<and> history ORAT (prev_history RESV 6500000) record_defaulted LRAT False
        = Inl MissingControlMode"
proof -
  have a: "\<not> defaultApplied (record_WCONHIST ''THP'' ''CMODE'')"
    and b: "ControlModeFromString (getTrimmedString (record_WCONHIST ''THP'' ''CMODE'')) = Some THP"
    and c: "effectiveHistoryProductionControl LRAT"
    and d: "getTrimmedString (record_WCONHIST ''THP'' ''CMODE'') = ''THP''"
    and e: "\<not> effectiveHistoryProductionControl
              (if effectiveHistoryProductionControl GRUP then GRUP else THP)"
    and f: "defaultApplied (record_defaulted ''CMODE'')"
    by (simp_all add: example_defs)
  from history_control_mode_errors [of ORAT "prev_history RESV 6500000"
      "record_WCONHIST ''THP''" LRAT False THP "''THP''"] a b c
  have 1: "\<exists>p. history ORAT (prev_history RESV 6500000) (record_WCONHIST ''THP'') LRAT False = Inr p
          \<and> controlMode p = LRAT"
    by blast
  from history_control_mode_errors [of ORAT "prev_history RESV 6500000"
      "record_WCONHIST ''THP''" GRUP False THP "''THP''"] a b d e
  have 2: "history ORAT (prev_history RESV 6500000) (record_WCONHIST ''THP'') GRUP False
        = Inl (UnsupportedControlMode ''THP'')"
    by simp
  from history_control_mode_errors [of ORAT "prev_history RESV 6500000"
      record_defaulted LRAT False THP "''THP''"] f
  have 3: "history ORAT (prev_history RESV 6500000) record_defaulted LRAT False
        = Inl MissingControlMode"
    by blast
  from a b c 1 2 3 show ?thesis by blast
qed

text \<open>
  C6. In every successful predictive resolution each of ORAT, WRAT, GRAT, LRAT and RESV is
  an active control exactly when the record states its item; THP is one exactly when the
  record states its item and the tubing-head pressure limit, the SI value of that item, is
  not zero; and GRUP is one exactly when the group control was asked for.
\<close>

theorem prediction_active_controls:
  assumes "prediction dflt record grp = Inr p"
  shows "(ORAT \<in> m_productionControls p \<longleftrightarrow> \<not> defaultApplied (record ''ORAT''))
       \<and> (WRAT \<in> m_productionControls p \<longleftrightarrow> \<not> defaultApplied (record ''WRAT''))
       \<and> (GRAT \<in> m_productionControls p \<longleftrightarrow> \<not> defaultApplied (record ''GRAT''))
       \<and> (LRAT \<in> m_productionControls p \<longleftrightarrow> \<not> defaultApplied (record ''LRAT''))
       \<and> (RESV \<in> m_productionControls p \<longleftrightarrow> \<not> defaultApplied (record ''RESV''))
       \<and> (THP \<in> m_productionControls p \<longleftrightarrow>
            \<not> defaultApplied (record ''THP'') \<and> THPLimit p \<noteq> 0)
       \<and> THPLimit p = getSIDouble (record ''THP'')
       \<and> (GRUP \<in> m_productionControls p \<longleftrightarrow> grp)"
proof -
  have thp: "THPLimit p = getSIDouble (record ''THP'')"
    using assms by (rule prediction_Inr_cases) (simp_all add: prediction_controls_eq)
  have "m_productionControls p = m_productionControls (prediction_controls dflt record grp)"
    using assms by (rule prediction_Inr_controls)
  then show ?thesis
    by (simp add: thp prediction_controls_iff)
qed

theorem prediction_active_controls_witness:
  "let r = prediction ORAT (record_WCONPROD 0 1) True; p = projr r
   in r = Inr p
      \<and> \<not> defaultApplied (record_WCONPROD 0 1 ''ORAT'')
      \<and> \<not> defaultApplied (record_WCONPROD 0 1 ''THP'')
      \<and> getSIDouble (record_WCONPROD 0 1 ''THP'') = 0
      \<and> defaultApplied (record_WCONPROD 0 1 ''WRAT'')
      \<and> ORAT \<in> m_productionControls p \<and> WRAT \<notin> m_productionControls p
      \<and> THP \<notin> m_productionControls p \<and> GRUP \<in> m_productionControls p"
proof -
  let ?r = "prediction ORAT (record_WCONPROD 0 1) True"
  have "\<not> hasValue (record_WCONPROD 0 1 ''CMODE'')"
    by (simp add: example_defs)
  then have r: "?r = Inr (projr ?r)"
    by (simp add: prediction_absent)
  have st: "\<not> defaultApplied (record_WCONPROD 0 1 ''ORAT'')"
    "\<not> defaultApplied (record_WCONPROD 0 1 ''THP'')"
    "getSIDouble (record_WCONPROD 0 1 ''THP'') = 0"
    "defaultApplied (record_WCONPROD 0 1 ''WRAT'')"
    by (simp_all add: example_defs)
  from prediction_active_controls [OF r] st
  have "ORAT \<in> m_productionControls (projr ?r)" "WRAT \<notin> m_productionControls (projr ?r)"
    "THP \<notin> m_productionControls (projr ?r)" "GRUP \<in> m_productionControls (projr ?r)"
    by simp_all
  with r st show ?thesis
    unfolding Let_def by blast
qed

text \<open>
  C7. For a record with a CMODE item whose text names a mode, the predictive resolver
  fails with \<open>UnavailableControlSelection\<close> exactly when that mode is not in the set of
  active controls that the record and the group flag give, and otherwise returns that
  state with the mode as the current control. For a record without a CMODE item it returns
  that state as it is, the current control at its default.
\<close>

theorem prediction_current_mode:
  "(prediction dflt record grp = Inl UnavailableControlSelection \<longleftrightarrow>
      hasValue (record ''CMODE'')
      \<and> (\<exists>m. ControlModeFromString (getTrimmedString (record ''CMODE'')) = Some m
            \<and> m \<notin> m_productionControls (prediction_controls dflt record grp)))
   \<and> (hasValue (record ''CMODE'')
        \<and> ControlModeFromString (getTrimmedString (record ''CMODE'')) = Some m
        \<and> m \<in> m_productionControls (prediction_controls dflt record grp) \<longrightarrow>
        prediction dflt record grp =
          Inr ((prediction_controls dflt record grp)\<lparr>controlMode := m\<rparr>))
   \<and> (\<not> hasValue (record' ''CMODE'') \<longrightarrow>
        prediction dflt' record' grp' = Inr (prediction_controls dflt' record' grp')
        \<and> controlMode (prediction_controls dflt' record' grp') = dflt')"
proof (intro conjI impI)
  show "prediction dflt record grp = Inl UnavailableControlSelection \<longleftrightarrow>
      hasValue (record ''CMODE'')
      \<and> (\<exists>m. ControlModeFromString (getTrimmedString (record ''CMODE'')) = Some m
            \<and> m \<notin> m_productionControls (prediction_controls dflt record grp))"
  proof (cases "hasValue (record ''CMODE'')")
    case False
    then show ?thesis by (simp add: prediction_absent)
  next
    case hv: True
    show ?thesis
    proof (cases "ControlModeFromString (getTrimmedString (record ''CMODE''))")
      case None
      with hv show ?thesis by (simp add: prediction_unknown)
    next
      case (Some m')
      with hv show ?thesis by (simp add: prediction_stated)
    qed
  qed
next
  assume "hasValue (record ''CMODE'')
        \<and> ControlModeFromString (getTrimmedString (record ''CMODE'')) = Some m
        \<and> m \<in> m_productionControls (prediction_controls dflt record grp)"
  then have "hasValue (record ''CMODE'')"
    and "ControlModeFromString (getTrimmedString (record ''CMODE'')) = Some m"
    and "m \<in> m_productionControls (prediction_controls dflt record grp)"
    by simp_all
  then show "prediction dflt record grp =
          Inr ((prediction_controls dflt record grp)\<lparr>controlMode := m\<rparr>)"
    by (simp add: prediction_stated)
next
  assume "\<not> hasValue (record' ''CMODE'')"
  then show "prediction dflt' record' grp' = Inr (prediction_controls dflt' record' grp')"
    by (rule prediction_absent)
next
  show "controlMode (prediction_controls dflt' record' grp') = dflt'"
    by (rule prediction_controls_controlMode)
qed


theorem prediction_current_mode_witness:
  "let rc = (record_WCONPROD 0 1)(''CMODE'' := item_text ''ORAT'');
       rc' = (record_WCONPROD 0 1)(''CMODE'' := item_text ''THP'')
   in hasValue (rc ''CMODE'')
      \<and> ControlModeFromString (getTrimmedString (rc ''CMODE'')) = Some ORAT
      \<and> ORAT \<in> m_productionControls (prediction_controls GRUP rc False)
      \<and> prediction GRUP rc False = Inr ((prediction_controls GRUP rc False)\<lparr>controlMode := ORAT\<rparr>)
      \<and> prediction GRUP rc' False = Inl UnavailableControlSelection
      \<and> \<not> hasValue (record_WCONPROD 0 1 ''CMODE'')
      \<and> prediction GRUP (record_WCONPROD 0 1) False =
           Inr (prediction_controls GRUP (record_WCONPROD 0 1) False)
      \<and> controlMode (prediction_controls GRUP (record_WCONPROD 0 1) False) = GRUP"
proof -
  let ?rc = "(record_WCONPROD 0 1)(''CMODE'' := item_text ''ORAT'')"
  let ?rc' = "(record_WCONPROD 0 1)(''CMODE'' := item_text ''THP'')"
  have a: "hasValue (?rc ''CMODE'')"
    and b: "ControlModeFromString (getTrimmedString (?rc ''CMODE'')) = Some ORAT"
    and c: "ORAT \<in> m_productionControls (prediction_controls GRUP ?rc False)"
    and a': "hasValue (?rc' ''CMODE'')"
    and b': "ControlModeFromString (getTrimmedString (?rc' ''CMODE'')) = Some THP"
    and c': "THP \<notin> m_productionControls (prediction_controls GRUP ?rc' False)"
    and d: "\<not> hasValue (record_WCONPROD 0 1 ''CMODE'')"
    by (simp_all add: prediction_controls_iff example_defs)
  from prediction_current_mode [of GRUP ?rc False ORAT "record_WCONPROD 0 1" GRUP False] a b c d
  have 1: "prediction GRUP ?rc False = Inr ((prediction_controls GRUP ?rc False)\<lparr>controlMode := ORAT\<rparr>)"
    and 2: "prediction GRUP (record_WCONPROD 0 1) False =
           Inr (prediction_controls GRUP (record_WCONPROD 0 1) False)"
    and 3: "controlMode (prediction_controls GRUP (record_WCONPROD 0 1) False) = GRUP"
    by blast+
  from prediction_current_mode [of GRUP ?rc' False THP "record_WCONPROD 0 1" GRUP False] a' b' c'
  have 4: "prediction GRUP ?rc' False = Inl UnavailableControlSelection"
    by blast
  from a b c d 1 2 3 4 show ?thesis
    unfolding Let_def by blast
qed

text \<open>
  C8. In every successful historical resolution the table number is the record's value
  when that value is not 0 and the previous state's table number when it is 0; and the
  lift quantity is the record's value when that value is not 0 and the previous state's
  lift quantity when it is 0.
\<close>

theorem history_VFPTableNumber_ALQValue:
  assumes "history dflt prev record ov sw = Inr p"
  shows "VFPTableNumber p =
           (if get_int (record ''VFPTable'') \<noteq> 0 then get_int (record ''VFPTable'')
            else VFPTableNumber prev)
         \<and> ALQValue p =
           (if get_double (record ''Lift'') \<noteq> 0 then get_double (record ''Lift'')
            else ALQValue prev)"
  using assms by (rule history_Inr_state) simp

theorem history_VFPTableNumber_ALQValue_witness:
  "let r = history ORAT (prev_history RESV 6500000) (record_WCONHIST ''ORAT'') THP False;
       p = projr r
   in r = Inr p
      \<and> get_int (record_WCONHIST ''ORAT'' ''VFPTable'') = 0
      \<and> VFPTableNumber (prev_history RESV 6500000) = 7
      \<and> get_double (record_WCONHIST ''ORAT'' ''Lift'') = 2
      \<and> VFPTableNumber p = 7 \<and> ALQValue p = 2"
proof -
  let ?r = "history ORAT (prev_history RESV 6500000) (record_WCONHIST ''ORAT'') THP False"
  have ok: "?r = Inr (projr ?r)"
    by (subst (1 2) history_success [where m = ORAT]) (simp_all add: example_defs)
  have st: "get_int (record_WCONHIST ''ORAT'' ''VFPTable'') = 0"
    "VFPTableNumber (prev_history RESV 6500000) = 7"
    "get_double (record_WCONHIST ''ORAT'' ''Lift'') = 2"
    by (simp_all add: example_defs WellProductionProperties_default_def)
  from history_VFPTableNumber_ALQValue [OF ok] st
  have "VFPTableNumber (projr ?r) = 7" "ALQValue (projr ?r) = 2"
    by simp_all
  with ok st show ?thesis
    unfolding Let_def by blast
qed

text \<open>
  C9. The predicate of the effective historical production controls holds of exactly the
  modes LRAT, RESV, ORAT, WRAT, GRAT and BHP, so not of THP and not of GRUP; and the
  current control of every state that the historical resolver returns is one of the six.
\<close>

theorem effective_history_controls:
  "(effectiveHistoryProductionControl cmode \<longleftrightarrow> cmode \<in> {LRAT, RESV, ORAT, WRAT, GRAT, BHP})
   \<and> \<not> effectiveHistoryProductionControl THP
   \<and> \<not> effectiveHistoryProductionControl GRUP
   \<and> (history dflt prev record ov sw = Inr p \<longrightarrow>
        controlMode p \<in> {LRAT, RESV, ORAT, WRAT, GRAT, BHP}
        \<and> controlMode p \<noteq> THP \<and> controlMode p \<noteq> GRUP)"
proof -
  have iff: "effectiveHistoryProductionControl c \<longleftrightarrow> c \<in> {LRAT, RESV, ORAT, WRAT, GRAT, BHP}"
    for c
    by (simp add: effectiveHistoryProductionControl_def)
  have "controlMode p \<in> {LRAT, RESV, ORAT, WRAT, GRAT, BHP}"
    if "history dflt prev record ov sw = Inr p"
    using that by (rule history_Inr_state) (simp only: iff)
  then show ?thesis
    unfolding iff by auto
qed

theorem effective_history_controls_witness:
  "let r = history ORAT (prev_history RESV 6500000) (record_WCONHIST ''THP'') LRAT False;
       p = projr r
   in r = Inr p
      \<and> controlMode p \<in> {LRAT, RESV, ORAT, WRAT, GRAT, BHP}
      \<and> controlMode p \<noteq> THP \<and> controlMode p \<noteq> GRUP"
proof -
  let ?r = "history ORAT (prev_history RESV 6500000) (record_WCONHIST ''THP'') LRAT False"
  have ok: "?r = Inr (projr ?r)"
    by (subst (1 2) history_success [where m = THP]) (simp_all add: example_defs)
  from effective_history_controls [of LRAT ORAT "prev_history RESV 6500000"
      "record_WCONHIST ''THP''" LRAT False "projr ?r"] ok
  have "controlMode (projr ?r) \<in> {LRAT, RESV, ORAT, WRAT, GRAT, BHP}
      \<and> controlMode (projr ?r) \<noteq> THP \<and> controlMode (projr ?r) \<noteq> GRUP"
    by blast
  with ok show ?thesis
    unfolding Let_def by blast
qed

text \<open>
  C10. In every successful historical resolution whose resulting current control is BHP
  the bottom-hole pressure limit is the state's own history member \<open>BHPH\<close>, which is the
  record's value when the record states one and the member's default otherwise; the
  previous state and the switching flag have no part in it.
\<close>

theorem history_BHP_control_limit:
  assumes "history dflt prev record ov sw = Inr p" and "controlMode p = BHP"
  shows "BHPLimit p = BHPH p
       \<and> BHPH p = (if hasValue (record ''BHP'') then getSIDouble (record ''BHP'')
                   else BHPH (WellProductionProperties_default dflt))
       \<and> (\<exists>p'. history dflt prev' record ov sw' = Inr p' \<and> controlMode p' = BHP
                \<and> BHPLimit p' = BHPLimit p)"
proof -
  from assms(1) obtain m where m:
    "\<not> defaultApplied (record ''CMODE'')"
    "ControlModeFromString (getTrimmedString (record ''CMODE'')) = Some m"
    "effectiveHistoryProductionControl (controlMode p)"
    "controlMode p = (if effectiveHistoryProductionControl ov then ov else m)"
    and h: "BHPH p = (if hasValue (record ''BHP'') then getSIDouble (record ''BHP'') else 0)"
    and l: "BHPLimit p =
       (if controlMode p = BHP then BHPH p
        else if predictionMode prev \<or> sw \<or> controlMode prev = BHP then 1 * unit_atm
        else BHPLimit prev)"
    by (rule history_Inr_state)
  from l assms(2) have 1: "BHPLimit p = BHPH p"
    by simp
  have 2: "BHPH p = (if hasValue (record ''BHP'') then getSIDouble (record ''BHP'')
                   else BHPH (WellProductionProperties_default dflt))"
    by (simp add: h WellProductionProperties_default_def)
  from m(3,4) have "effectiveHistoryProductionControl
      (if effectiveHistoryProductionControl ov then ov else m)"
    by simp
  from history_success [of "record" m ov dflt prev' sw', OF m(1,2) this]
  obtain p' where p': "history dflt prev' record ov sw' = Inr p'"
    and cm: "controlMode p' = (if effectiveHistoryProductionControl ov then ov else m)"
    by simp
  from p' obtain m' where
    "BHPH p' = (if hasValue (record ''BHP'') then getSIDouble (record ''BHP'') else 0)"
    and "BHPLimit p' =
       (if controlMode p' = BHP then BHPH p'
        else if predictionMode prev' \<or> sw' \<or> controlMode prev' = BHP then 1 * unit_atm
        else BHPLimit prev')"
    by (rule history_Inr_state)
  with cm m(4) assms(2) h 1 have "controlMode p' = BHP \<and> BHPLimit p' = BHPLimit p"
    by simp
  with p' 1 2 show ?thesis by blast
qed

theorem history_BHP_control_limit_witness:
  "let r = history ORAT (prev_history RESV 6500000) (record_WCONHIST_bare ''BHP'') THP False;
       p = projr r
   in r = Inr p \<and> controlMode p = BHP
      \<and> \<not> hasValue (record_WCONHIST_bare ''BHP'' ''BHP'')
      \<and> BHPLimit (prev_history RESV 6500000) = 6500000
      \<and> BHPH (WellProductionProperties_default ORAT) = 0
      \<and> BHPH p = 0 \<and> BHPLimit p = 0"
proof -
  let ?r = "history ORAT (prev_history RESV 6500000) (record_WCONHIST_bare ''BHP'') THP False"
  have ok: "?r = Inr (projr ?r)"
    by (subst (1 2) history_success [where m = BHP]) (simp_all add: example_defs)
  have cm: "controlMode (projr ?r) = BHP"
    by (subst history_success [where m = BHP]) (simp_all add: example_defs)
  have st: "\<not> hasValue (record_WCONHIST_bare ''BHP'' ''BHP'')"
    "BHPLimit (prev_history RESV 6500000) = 6500000"
    "BHPH (WellProductionProperties_default ORAT) = 0"
    by (simp_all add: example_defs WellProductionProperties_default_def)
  from history_BHP_control_limit [OF ok cm] st
  have "BHPH (projr ?r) = 0" "BHPLimit (projr ?r) = 0"
    by simp_all
  with ok cm st show ?thesis
    unfolding Let_def by blast
qed

end
